theory Spec2Isabelle
  imports Complex_Main "HOL-Library.Sublist" "HOL-Library.Multiset" "HOL-Library.Log_Nat"
begin

section \<open>Text, numbers and the library functions the monitor calls\<close>

text \<open>
  A Python \<open>str\<close> is a sequence of Unicode code points, so a text is a list of code
  points (natural numbers); \<open>len\<close> is \<open>length\<close>. ASCII literals of the source are
  written through \<open>ascii\<close>, the others as their code points.

  Prices are Python floats. They are modelled by the rationals: every finite float is a
  rational. What the source does with a zero divisor (\<open>ZeroDivisionError\<close>) is written
  out. The key of the \<open>sorted\<close> call is computed as the float operations compute it,
  each result rounded to a double (\<open>double_round\<close> below), because the order of the rows
  depends on that rounding. In \<open>display_stock_info\<close>, where only printed digits depend
  on it, differences and quotients are taken exactly.
\<close>

type_synonym ustring = "nat list"

definition ascii :: "string \<Rightarrow> ustring" where
  "ascii s = map of_char s"

text \<open>The classes \<open>unicodedata.east_asian_width\<close> returns.\<close>

datatype eaw = F | W | Na | H | A | N

text \<open>
  The exceptions that occur in the modelled code. \<open>TypeError\<close> is what subscripting
  \<open>None\<close> raises.
\<close>

datatype error = IndexError | ValueError | ZeroDivisionError | TypeError

text \<open>
  The library functions of Python that the monitor calls and that are not part of the
  repository are parameters of the model:
  \<^item> \<open>east_asian_width\<close> is \<open>unicodedata.east_asian_width\<close>;
  \<^item> \<open>float_of\<close> is \<open>float(s)\<close>, \<open>None\<close> where Python raises \<open>ValueError\<close>;
  \<^item> \<open>format_f plus width x\<close> is \<open>format(x, '>[+][width].2f')\<close>: two decimals,
    right-aligned to \<open>width\<close> characters, with the sign always shown when \<open>plus\<close>.
\<close>

record pylib =
  east_asian_width :: "nat \<Rightarrow> eaw"
  float_of :: "ustring \<Rightarrow> rat option"
  format_f :: "bool \<Rightarrow> nat \<Rightarrow> rat \<Rightarrow> ustring"

section \<open>Display width and alignment\<close>

text \<open>
  \<open>get_display_width\<close>: the loop over the characters of \<open>s\<close> with the accumulator
  \<open>width\<close>, starting at 0.
\<close>

definition char_width :: "pylib \<Rightarrow> nat \<Rightarrow> nat" where
  "char_width lib c = (if east_asian_width lib c \<in> {F, W} then 2 else 1)"

fun display_width_loop :: "pylib \<Rightarrow> nat \<Rightarrow> ustring \<Rightarrow> nat" where
  "display_width_loop lib width [] = width"
| "display_width_loop lib width (c # s) =
     (if east_asian_width lib c \<in> {F, W}
      then display_width_loop lib (width + 2) s
      else display_width_loop lib (width + 1) s)"

definition get_display_width :: "pylib \<Rightarrow> ustring \<Rightarrow> nat" where
  "get_display_width lib s = display_width_loop lib 0 s"

text \<open>
  \<open>align_text\<close>. The target width is a Python integer, and so is the padding needed;
  \<open>' ' * n\<close> is \<open>n\<close> spaces (none for \<open>n \<le> 0\<close>). The alignment is a text compared with
  the three literals; any other value returns the text unchanged.
\<close>

definition spaces :: "int \<Rightarrow> ustring" where
  "spaces n = replicate (nat n) 32"

definition align_text :: "pylib \<Rightarrow> ustring \<Rightarrow> int \<Rightarrow> ustring \<Rightarrow> ustring" where
  "align_text lib text target_width align =
     (let actual_width = int (get_display_width lib text);
          padding_needed = target_width - actual_width
      in if padding_needed \<le> 0 then text
         else if align = ascii ''left'' then text @ spaces padding_needed
         else if align = ascii ''right'' then spaces padding_needed @ text
         else if align = ascii ''center'' then
           (let left_padding = padding_needed div 2;
                right_padding = padding_needed - left_padding
            in spaces left_padding @ text @ spaces right_padding)
         else text)"

section \<open>Parsing a response\<close>

text \<open>
  \<open>s.split(sep)\<close> for a non-empty separator: the text is scanned from the left, and
  each occurrence of the separator closes the current piece and is skipped. (Python
  raises \<open>ValueError\<close> for an empty separator; both separators of the source are
  non-empty literals, and the model returns the whole text as one piece there.)
\<close>

fun split_loop :: "'a list \<Rightarrow> 'a list \<Rightarrow> 'a list \<Rightarrow> 'a list list" where
  "split_loop sep cur [] = [cur]"
| "split_loop sep cur (c # s) =
     (if sep \<noteq> [] \<and> prefix sep (c # s)
      then cur # split_loop sep [] (drop (length sep - 1) s)
      else split_loop sep (cur @ [c]) s)"

definition py_split :: "'a list \<Rightarrow> 'a list \<Rightarrow> 'a list list" where
  "py_split sep s = split_loop sep [] s"

text \<open>\<open>s.rstrip(chars)\<close> removes every trailing character that belongs to \<open>chars\<close>.\<close>

definition rstrip :: "'a list \<Rightarrow> 'a list \<Rightarrow> 'a list" where
  "rstrip chars s = rev (dropWhile (\<lambda>c. c \<in> set chars) (rev s))"

text \<open>\<open>xs[i]\<close> for an index \<open>i \<ge> 0\<close>: \<open>IndexError\<close> out of range.\<close>

definition py_index :: "'a list \<Rightarrow> nat \<Rightarrow> error + 'a" where
  "py_index xs i = (if i < length xs then Inr (xs ! i) else Inl IndexError)"

text \<open>Sequencing of computations that may raise.\<close>

definition then_do :: "error + 'a \<Rightarrow> ('a \<Rightarrow> error + 'b) \<Rightarrow> error + 'b" where
  "then_do m f = (case m of Inl e \<Rightarrow> Inl e | Inr x \<Rightarrow> f x)"

text \<open>The literals \<open>'="'\<close>, \<open>'";'\<close> and \<open>'~'\<close> of the parser.\<close>

definition open_marker :: ustring where
  "open_marker = [61, 34]"

definition close_chars :: ustring where
  "close_chars = [34, 59]"

definition tilde :: ustring where
  "tilde = [126]"

text \<open>The dictionary \<open>stock_info\<close>, whose six keys are fixed.\<close>

record stock_info =
  name :: ustring
  current :: rat
  close :: rat
  open_p :: rat
  high :: rat
  low :: rat

text \<open>\<open>float(fields[i])\<close>: \<open>IndexError\<close> first, then \<open>ValueError\<close>.\<close>

definition float_field :: "pylib \<Rightarrow> ustring list \<Rightarrow> nat \<Rightarrow> error + rat" where
  "float_field lib flds i =
     then_do (py_index flds i)
       (\<lambda>t. case float_of lib t of None \<Rightarrow> Inl ValueError | Some v \<Rightarrow> Inr v)"

text \<open>
  The body of the \<open>status_code == 200\<close> branch of \<open>get_stock_price_optimized\<close>.
  First \<open>data_fields\<close>, the two lines from \<open>raw_data\<close> to the list \<open>fields\<close>: the
  piece after the first \<open>="\<close> (up to the next one, if any), without its trailing \<open>"\<close>
  and \<open>;\<close> characters, split at the tildes.
\<close>

definition data_fields :: "ustring \<Rightarrow> error + ustring list" where
  "data_fields raw_data =
     then_do (py_index (py_split open_marker raw_data) 1) (\<lambda>piece.
       let data_str = rstrip close_chars piece
       in Inr (py_split tilde data_str))"

text \<open>
  Then the dictionary, whose entries are evaluated in the order they are written
  (\<open>flds\<close> is the list \<open>fields\<close>).
\<close>

definition parse_raw_data :: "pylib \<Rightarrow> ustring \<Rightarrow> error + stock_info" where
  "parse_raw_data lib raw_data =
     then_do (data_fields raw_data) (\<lambda>flds.
       then_do (py_index flds 1) (\<lambda>n.
       then_do (float_field lib flds 3) (\<lambda>cur.
       then_do (float_field lib flds 4) (\<lambda>cl.
       then_do (float_field lib flds 5) (\<lambda>op.
       then_do (float_field lib flds 33) (\<lambda>hi.
       then_do (float_field lib flds 34) (\<lambda>lo.
         Inr \<lparr>name = n, current = cur, close = cl, open_p = op,
              high = hi, low = lo\<rparr>)))))))"

text \<open>
  The payload form \<open>f0~f1~...~fN\<close> of the feed: the fields joined by tildes. The
  program never builds a payload; this is the form the parser is meant for.
\<close>

fun tilde_join :: "ustring list \<Rightarrow> ustring" where
  "tilde_join [] = []"
| "tilde_join [f] = f"
| "tilde_join (f # g # fs) = f @ tilde @ tilde_join (g # fs)"

text \<open>
  What \<open>requests.get\<close> does for one code: it returns a response (status code and decoded
  body) or raises a timeout, another \<open>RequestException\<close>, or some other exception.
\<close>

datatype http = Response nat ustring | Timeout | RequestException | OtherException

text \<open>
  What the program writes. Lines of the table are kept as texts; the diagnostics, whose
  wording contains library messages, are kept with the values they report.
\<close>

datatype event =
    ClearScreen
  | CursorHome
  | Line ustring
  | StatusDiag nat
  | TimeoutDiag ustring
  | NetworkDiag ustring
  | ParseDiag ustring error ustring
  | UnknownDiag ustring
  | Timestamp
  | EmptyNotice
  | ExitNotice

text \<open>
  \<open>get_stock_price_optimized\<close>: every exception is caught and becomes \<open>None\<close> with a
  diagnostic. \<open>IndexError\<close> and \<open>ValueError\<close> are reported with the raw data; the parser
  raises no other exception.
\<close>

definition get_stock_price_optimized ::
    "pylib \<Rightarrow> (ustring \<Rightarrow> http) \<Rightarrow> ustring \<Rightarrow> event list \<times> stock_info option" where
  "get_stock_price_optimized lib net stock_code =
     (case net stock_code of
        Response status_code raw_data \<Rightarrow>
          (if status_code = 200 then
             (case parse_raw_data lib raw_data of
                Inr si \<Rightarrow> ([], Some si)
              | Inl e \<Rightarrow> ([ParseDiag stock_code e raw_data], None))
           else ([StatusDiag status_code], None))
      | Timeout \<Rightarrow> ([TimeoutDiag stock_code], None)
      | RequestException \<Rightarrow> ([NetworkDiag stock_code], None)
      | OtherException \<Rightarrow> ([UnknownDiag stock_code], None))"

section \<open>Rendering a row\<close>

text \<open>The dictionary \<open>str_dict\<close> of \<open>display_one_line\<close>, one text per column.\<close>

record str_dict =
  code_col :: ustring
  name_col :: ustring
  current_col :: ustring
  change_col :: ustring
  high_col :: ustring
  low_col :: ustring

definition display_one_line :: "pylib \<Rightarrow> str_dict \<Rightarrow> ustring" where
  "display_one_line lib d =
     (let code_width = 10; name_width = 12; price_width = 10;
          change_width = 18; high_width = 10; low_width = 10;
          aligned_code = align_text lib (code_col d) code_width (ascii ''left'');
          aligned_name = align_text lib (name_col d) name_width (ascii ''left'');
          aligned_price = align_text lib (current_col d) price_width (ascii ''right'');
          aligned_change = align_text lib (change_col d) change_width (ascii ''right'');
          aligned_high = align_text lib (high_col d) high_width (ascii ''right'');
          aligned_low = align_text lib (low_col d) low_width (ascii ''right'')
      in aligned_code @ [32] @ aligned_name @ [32] @ aligned_price @ [32]
         @ aligned_change @ [32] @ aligned_high @ [32] @ aligned_low)"

text \<open>
  \<open>a / b\<close> raises \<open>ZeroDivisionError\<close> for a zero divisor; this is the quotient of
  \<open>display_stock_info\<close>, taken exactly.
\<close>

definition truediv :: "rat \<Rightarrow> rat \<Rightarrow> error + rat" where
  "truediv a b = (if b = 0 then Inl ZeroDivisionError else Inr (a / b))"

section \<open>Float arithmetic\<close>

text \<open>
  A float operation returns the exact result rounded to the nearest double, ties to
  the even significand (IEEE 754 binary64, the arithmetic of Python floats). For
  \<open>x > 0\<close>, \<open>exponent_of x\<close> is the \<open>e\<close> with \<open>2^e \<le> x < 2^(e+1)\<close>; the doubles there are
  the multiples of \<open>2^(e-52)\<close>, and below \<open>2^(-1022)\<close> those of \<open>2^(-1074)\<close>. The model has
  no infinity and no NaN: a result beyond the largest double is rounded like any other.
\<close>

definition pow2 :: "int \<Rightarrow> rat" where
  "pow2 e = (if 0 \<le> e then 2 ^ nat e else 1 / 2 ^ nat (- e))"

definition exponent_of :: "rat \<Rightarrow> int" where
  "exponent_of x =
     (let (p, q) = quotient_of x; e = bitlen p - bitlen q
      in if pow2 e \<le> x then e else e - 1)"

definition round_even :: "rat \<Rightarrow> int" where
  "round_even y =
     (let f = \<lfloor>y\<rfloor>; d = y - of_int f
      in if d < 1 / 2 then f
         else if 1 / 2 < d then f + 1
         else if even f then f else f + 1)"

definition double_round :: "rat \<Rightarrow> rat" where
  "double_round x =
     (if x = 0 then 0
      else let e = max (exponent_of \<bar>x\<bar>) (- 1022);
               ulp = pow2 (e - 52)
           in sgn x * of_int (round_even (\<bar>x\<bar> / ulp)) * ulp)"

text \<open>\<open>a - b\<close>, \<open>a / b\<close> and \<open>a * b\<close> on floats.\<close>

definition float_sub :: "rat \<Rightarrow> rat \<Rightarrow> rat" where
  "float_sub a b = double_round (a - b)"

definition float_truediv :: "rat \<Rightarrow> rat \<Rightarrow> error + rat" where
  "float_truediv a b = (if b = 0 then Inl ZeroDivisionError else Inr (double_round (a / b)))"


section \<open>Rendering a row, continued\<close>

text \<open>The format \<open>{s:>n}\<close> of a text pads on the left to \<open>n\<close> characters.\<close>

definition py_rjust :: "nat \<Rightarrow> ustring \<Rightarrow> ustring" where
  "py_rjust n s = replicate (n - length s) 32 @ s"

text \<open>
  The escape sequences \<open>\033[32m\<close> (green), \<open>\033[31m\<close> (red) and \<open>\033[0m\<close> (reset),
  and the arrows U+2191 and U+2193.
\<close>

definition green_code :: ustring where
  "green_code = 27 # ascii ''[32m''"

definition red_code :: ustring where
  "red_code = 27 # ascii ''[31m''"

definition reset_code :: ustring where
  "reset_code = 27 # ascii ''[0m''"

definition up_arrow :: ustring where
  "up_arrow = [8593]"

definition down_arrow :: ustring where
  "down_arrow = [8595]"

definition color_code :: "rat \<Rightarrow> ustring" where
  "color_code change = (if change < 0 then green_code else red_code)"

definition symbol :: "rat \<Rightarrow> ustring" where
  "symbol change = (if change \<ge> 0 then up_arrow else down_arrow)"

text \<open>The text \<open>change_str\<close> of \<open>display_stock_info\<close>.\<close>

definition change_str :: "pylib \<Rightarrow> rat \<Rightarrow> rat \<Rightarrow> ustring" where
  "change_str lib change change_percent =
     (let change_display = format_f lib True 7 change;
          percent_display = ascii ''('' @ format_f lib True 6 change_percent @ ascii ''%)''
      in color_code change @ change_display @ [32] @ percent_display
         @ symbol change @ reset_code)"

text \<open>
  \<open>display_stock_info\<close> returns the line it prints, or the exception it raises. A
  dictionary with six keys is true, \<open>None\<close> is false.
\<close>

definition display_stock_info ::
    "pylib \<Rightarrow> stock_info option \<Rightarrow> ustring \<Rightarrow> error + ustring" where
  "display_stock_info lib stock_info stock_code =
     (case stock_info of
        Some si \<Rightarrow>
          (let change = current si - close si
           in then_do (truediv change (close si)) (\<lambda>q.
                let change_percent = q * 100
                in Inr (display_one_line lib
                     \<lparr>code_col = stock_code,
                      name_col = name si,
                      current_col = format_f lib False 0 (current si),
                      change_col = change_str lib change change_percent,
                      high_col = format_f lib False 7 (high si),
                      low_col = format_f lib False 7 (low si)\<rparr>)))
      | None \<Rightarrow>
          Inr (py_rjust 10 stock_code @ [32] @ py_rjust 12 (ascii ''N/A'') @ [32]
               @ py_rjust 10 (ascii ''N/A'') @ [32] @ py_rjust 18 (ascii ''N/A'') @ [32]
               @ py_rjust 10 (ascii ''N/A'') @ [32] @ py_rjust 10 (ascii ''N/A'')))"

section \<open>One refresh cycle\<close>

text \<open>The header labels of \<open>run\<close>, as code points.\<close>

definition header_dict :: str_dict where
  "header_dict =
     \<lparr>code_col = [20195, 30721], name_col = [21517, 31216],
      current_col = [24403, 21069], change_col = [28072, 36300],
      high_col = [26368, 39640], low_col = [26368, 20302]\<rparr>"

text \<open>
  The key function of the \<open>sorted\<close> call, in float arithmetic: subscripting \<open>None\<close>
  raises \<open>TypeError\<close>, a zero close raises \<open>ZeroDivisionError\<close>.
\<close>

definition sort_lambda :: "stock_info option \<Rightarrow> error + rat" where
  "sort_lambda stock_info =
     (case stock_info of
        None \<Rightarrow> Inl TypeError
      | Some si \<Rightarrow> float_truediv (float_sub (current si) (close si)) (close si))"

text \<open>
  The value of that key for a quote whose close is not zero, and the change in percent
  that \<open>display_stock_info\<close> derives from the same quotient
  (\<open>(change / stock_info['close']) * 100\<close>), as the float operations compute them.
\<close>

definition sort_key_of :: "stock_info \<Rightarrow> rat" where
  "sort_key_of si = double_round (float_sub (current si) (close si) / close si)"


text \<open>
  \<open>sorted(xs, key=f, reverse=True)\<close>: the keys of all elements are computed first, in
  order, and the first exception ends the call. The sort is stable and descending:
  the list is reversed, sorted stably by ascending key, and reversed again.
\<close>

fun keyed :: "('a \<Rightarrow> error + 'k) \<Rightarrow> 'a list \<Rightarrow> error + ('k \<times> 'a) list" where
  "keyed f [] = Inr []"
| "keyed f (x # xs) =
     then_do (f x) (\<lambda>k. then_do (keyed f xs) (\<lambda>kxs. Inr ((k, x) # kxs)))"

definition sorted_reverse ::
    "('a \<Rightarrow> error + 'k::linorder) \<Rightarrow> 'a list \<Rightarrow> error + 'a list" where
  "sorted_reverse f xs =
     then_do (keyed f xs) (\<lambda>kxs. Inr (map snd (rev (sort_key fst (rev kxs)))))"

text \<open>The first loop of a cycle: one request per code, in order.\<close>

fun fetch_all ::
    "pylib \<Rightarrow> (ustring \<Rightarrow> http) \<Rightarrow> ustring list \<Rightarrow> event list \<times> stock_info option list" where
  "fetch_all lib net [] = ([], [])"
| "fetch_all lib net (code # codes) =
     (let (out, stock_info) = get_stock_price_optimized lib net code;
          (outs, stock_info_list) = fetch_all lib net codes
      in (out @ outs, stock_info # stock_info_list))"

text \<open>
  The second loop: one row per sorted outcome; an exception ends it. The code passed
  to \<open>display_stock_info\<close> is the variable \<open>code\<close> of the first loop, whose value after
  that loop is the last configured code.
\<close>

fun display_all ::
    "pylib \<Rightarrow> ustring \<Rightarrow> stock_info option list \<Rightarrow> event list \<times> error option" where
  "display_all lib code [] = ([], None)"
| "display_all lib code (stock_info # rest) =
     (case display_stock_info lib stock_info code of
        Inl e \<Rightarrow> ([], Some e)
      | Inr row \<Rightarrow> (let (out, r) = display_all lib code rest in (Line row # out, r)))"

text \<open>
  The body of the \<open>while True\<close> loop up to the sleep: what it writes, and the exception
  that leaves it, if any.
\<close>

definition run_cycle ::
    "pylib \<Rightarrow> (ustring \<Rightarrow> http) \<Rightarrow> ustring list \<Rightarrow> event list \<times> error option" where
  "run_cycle lib net stock_codes =
     (let (diags, stock_info_list) = fetch_all lib net stock_codes;
          head_out = [CursorHome, Line (display_one_line lib header_dict)] @ diags
      in case sorted_reverse sort_lambda stock_info_list of
           Inl e \<Rightarrow> (head_out, Some e)
         | Inr sorted_list \<Rightarrow>
             (case display_all lib (last stock_codes) sorted_list of
                (rows, Some e) \<Rightarrow> (head_out @ rows, Some e)
              | (rows, None) \<Rightarrow> (head_out @ rows @ [Timestamp], None)))"

text \<open>
  \<open>run\<close>. The loop has no exit of its own: it ends with the keyboard interrupt, which
  \<open>run\<close> catches, or with any other exception, which \<open>run\<close> does not catch. The list
  \<open>nets\<close> gives what the network answers during each cycle that starts before the
  interrupt.
\<close>

fun run_loop ::
    "pylib \<Rightarrow> (ustring \<Rightarrow> http) list \<Rightarrow> ustring list \<Rightarrow> event list \<times> error option" where
  "run_loop lib [] stock_codes = ([ExitNotice], None)"
| "run_loop lib (net # nets) stock_codes =
     (case run_cycle lib net stock_codes of
        (out, Some e) \<Rightarrow> (out, Some e)
      | (out, None) \<Rightarrow>
          (let (out', r) = run_loop lib nets stock_codes in (out @ out', r)))"

definition run ::
    "pylib \<Rightarrow> (ustring \<Rightarrow> http) list \<Rightarrow> ustring list \<Rightarrow> event list \<times> error option" where
  "run lib nets stock_codes =
     (if stock_codes = [] then ([EmptyNotice], None)
      else (let (out, r) = run_loop lib nets stock_codes in (ClearScreen # out, r)))"

section \<open>A concrete instance of the library functions\<close>

text \<open>
  An excerpt of the East Asian Width table of Unicode: the CJK unified ideographs are
  wide, the fullwidth forms are fullwidth, the arrows are ambiguous, printable ASCII is
  narrow. Code points outside these ranges are given the class \<open>N\<close> here.
\<close>

definition eaw_excerpt :: "nat \<Rightarrow> eaw" where
  "eaw_excerpt c =
     (if 19968 \<le> c \<and> c \<le> 40959 then W
      else if 65281 \<le> c \<and> c \<le> 65376 then F
      else if 8592 \<le> c \<and> c \<le> 8601 then A
      else if 32 \<le> c \<and> c \<le> 126 then Na
      else N)"

text \<open>
  \<open>float\<close> on plain decimal literals: an optional sign, digits, and optionally a point
  followed by digits. (Python accepts more, such as exponents; those texts are
  rejected here.)
\<close>

fun digits_val :: "nat \<Rightarrow> ustring \<Rightarrow> nat option" where
  "digits_val acc [] = Some acc"
| "digits_val acc (c # cs) =
     (if 48 \<le> c \<and> c \<le> 57 then digits_val (10 * acc + (c - 48)) cs else None)"

definition unsigned_decimal :: "ustring \<Rightarrow> rat option" where
  "unsigned_decimal s =
     (let ip = takeWhile (\<lambda>c. c \<noteq> 46) s;
          rest = dropWhile (\<lambda>c. c \<noteq> 46) s
      in if ip = [] then None
         else case digits_val 0 ip of
           None \<Rightarrow> None
         | Some i \<Rightarrow>
             (case rest of
                [] \<Rightarrow> Some (of_nat i)
              | _ # fp \<Rightarrow>
                  (if fp = [] then None
                   else case digits_val 0 fp of
                     None \<Rightarrow> None
                   | Some f \<Rightarrow> Some (of_nat i + of_nat f / 10 ^ length fp))))"

definition float_decimal :: "ustring \<Rightarrow> rat option" where
  "float_decimal s =
     (case s of
        [] \<Rightarrow> None
      | c # r \<Rightarrow>
          (if c = 45 then map_option uminus (unsigned_decimal r)
           else if c = 43 then unsigned_decimal r
           else unsigned_decimal s))"

text \<open>
  The format \<open>.2f\<close>: the value is rounded to two decimals, ties to even; the sign is
  that of the value before rounding.
\<close>

fun digits_of :: "nat \<Rightarrow> ustring" where
  "digits_of n = (if n < 10 then [48 + n] else digits_of (n div 10) @ [48 + n mod 10])"

definition round_half_even :: "rat \<Rightarrow> nat" where
  "round_half_even r =
     (let fl = nat \<lfloor>r\<rfloor>; d = r - of_nat fl
      in if d < 1 / 2 then fl
         else if 1 / 2 < d then fl + 1
         else if even fl then fl else fl + 1)"

definition format_2f :: "bool \<Rightarrow> nat \<Rightarrow> rat \<Rightarrow> ustring" where
  "format_2f show_plus width x =
     (let cents = round_half_even (\<bar>x\<bar> * 100);
          sign = (if x < 0 then ascii ''-'' else if show_plus then ascii ''+'' else []);
          frac = cents mod 100
      in py_rjust width
           (sign @ digits_of (cents div 100) @ ascii ''.''
            @ [48 + frac div 10, 48 + frac mod 10]))"

definition sample_lib :: pylib where
  "sample_lib =
     \<lparr>east_asian_width = eaw_excerpt, float_of = float_decimal, format_f = format_2f\<rparr>"

section \<open>Sample data\<close>

text \<open>
  A payload of 35 fields in the form of the feed, for the code \<open>sh601318\<close>: the name is
  \<open>PINGAN\<close>, the prices are at the positions 3, 4, 5, 33 and 34, and the fields
  6 to 32 hold their own position.
\<close>

definition sample_fields :: "ustring list" where
  "sample_fields =
     [ascii ''1'', ascii ''PINGAN'', ascii ''601318'',
      ascii ''27.85'', ascii ''27.80'', ascii ''27.82'']
     @ map digits_of [6..<33]
     @ [ascii ''28.10'', ascii ''27.60'']"

definition payload_of :: "ustring \<Rightarrow> ustring list \<Rightarrow> ustring" where
  "payload_of ident fs = ident @ open_marker @ tilde_join fs @ [34, 59]"

definition sample_payload :: ustring where
  "sample_payload = payload_of (ascii ''v_sh601318'') sample_fields"

definition sample_quote :: stock_info where
  "sample_quote =
     \<lparr>name = ascii ''PINGAN'', current = 2785 / 100, close = 2780 / 100,
      open_p = 2782 / 100, high = 2810 / 100, low = 2760 / 100\<rparr>"

text \<open>The two codes of the end-to-end scenario.\<close>

definition sh601318 :: ustring where
  "sh601318 = ascii ''sh601318''"

definition sz000001 :: ustring where
  "sz000001 = ascii ''sz000001''"

text \<open>
  Networks for one cycle. In the first the request for \<open>sz000001\<close> times out; in the
  second its response has a single field, which the parser rejects; in the third the
  only code has a previous close of zero.
\<close>

definition timeout_net :: "ustring \<Rightarrow> http" where
  "timeout_net c = (if c = sh601318 then Response 200 sample_payload else Timeout)"

definition scenario_net :: "ustring \<Rightarrow> http" where
  "scenario_net c =
     (if c = sh601318 then Response 200 sample_payload
      else Response 200 (payload_of (ascii ''v_pv_none_match'') [ascii ''1'']))"

definition zero_close_net :: "ustring \<Rightarrow> http" where
  "zero_close_net c =
     Response 200 (payload_of (ascii ''v_sh601318'') (sample_fields[4 := ascii ''0.00'']))"






text \<open>
  Payloads for the parser: the sample payload without its closing \<open>";\<close>; a response
  without any marker; the sample payload with a text that is no number at position 3;
  and the sample payload with the name \<open>A="B\<close>, which contains the opening marker.
\<close>

definition unclosed_payload :: ustring where
  "unclosed_payload = ascii ''v_sh601318'' @ open_marker @ tilde_join sample_fields"

definition unmarked_body :: ustring where
  "unmarked_body = ascii ''pv_none_match''"

definition non_numeric_payload :: ustring where
  "non_numeric_payload = payload_of (ascii ''v_sh601318'') (sample_fields[3 := ascii ''abc''])"

definition marker_name_fields :: "ustring list" where
  "marker_name_fields = sample_fields[1 := ascii ''A'' @ open_marker @ ascii ''B'']"

section \<open>Display width: properties\<close>

lemma display_width_loop_acc:
  "display_width_loop lib w s = w + sum_list (map (char_width lib) s)"
  by (induction s arbitrary: w) (simp_all add: char_width_def)

lemma get_display_width_sum:
  "get_display_width lib s = sum_list (map (char_width lib) s)"
  by (simp add: get_display_width_def display_width_loop_acc)

lemma ascii_left: "ascii ''left'' = [108, 101, 102, 116]" by (simp add: ascii_def)
lemma ascii_right: "ascii ''right'' = [114, 105, 103, 104, 116]" by (simp add: ascii_def)
lemma ascii_center: "ascii ''center'' = [99, 101, 110, 116, 101, 114]" by (simp add: ascii_def)

lemma get_display_width_append:
  "get_display_width lib (s @ t) = get_display_width lib s + get_display_width lib t"
  by (simp add: get_display_width_sum)

lemma get_display_width_spaces:
  "east_asian_width lib 32 \<notin> {F, W} \<Longrightarrow> get_display_width lib (replicate n 32) = n"
  by (induction n) (simp_all add: get_display_width_sum char_width_def)

text \<open>
  Claim C7. The display width of a text is the sum over its characters of 2 for a
  character of class \<open>F\<close> or \<open>W\<close> and of 1 for any other; so a text of single-width
  characters has its length as width, a text of double-width characters twice its
  length, and the width of a concatenation is the sum of the widths.
\<close>

theorem get_display_width_spec:
  "get_display_width lib s =
     (\<Sum>c\<leftarrow>s. if east_asian_width lib c = F \<or> east_asian_width lib c = W then 2 else 1)
   \<and> ((\<forall>c\<in>set s. east_asian_width lib c \<noteq> F \<and> east_asian_width lib c \<noteq> W)
        \<longrightarrow> get_display_width lib s = length s)
   \<and> ((\<forall>c\<in>set s. east_asian_width lib c = F \<or> east_asian_width lib c = W)
        \<longrightarrow> get_display_width lib s = 2 * length s)
   \<and> get_display_width lib (s @ t) = get_display_width lib s + get_display_width lib t"
proof -
  have sum: "get_display_width lib s =
     (\<Sum>c\<leftarrow>s. if east_asian_width lib c = F \<or> east_asian_width lib c = W then 2 else 1)"
    by (simp add: get_display_width_sum char_width_def cong: map_cong)
  have single: "get_display_width lib s = length s"
    if "\<forall>c\<in>set s. east_asian_width lib c \<noteq> F \<and> east_asian_width lib c \<noteq> W"
    using that by (induction s) (simp_all add: get_display_width_sum char_width_def)
  have double: "get_display_width lib s = 2 * length s"
    if "\<forall>c\<in>set s. east_asian_width lib c = F \<or> east_asian_width lib c = W"
    using that by (induction s) (auto simp add: get_display_width_sum char_width_def)
  from sum single double show ?thesis
    by (simp add: get_display_width_append)
qed

text \<open>
  The two ideographs U+4E2D U+56FD have width 4, \<open>abc\<close> has width 3, together 7.
\<close>

theorem get_display_width_spec_witness:
  "map (east_asian_width sample_lib) [20013, 22269] = [W, W]
   \<and> get_display_width sample_lib [20013, 22269] = 2 * length [20013, 22269 :: nat]
   \<and> map (east_asian_width sample_lib) (ascii ''abc'') = [Na, Na, Na]
   \<and> get_display_width sample_lib (ascii ''abc'') = length (ascii ''abc'')
   \<and> get_display_width sample_lib ([20013, 22269] @ ascii ''abc'') = 7"
  using get_display_width_spec [of sample_lib "[20013, 22269]" "ascii ''abc''"]
    get_display_width_spec [of sample_lib "ascii ''abc''" "[]"]
  by (simp add: sample_lib_def eaw_excerpt_def ascii_def)

text \<open>
  Claim C8. For the alignments \<open>left\<close>, \<open>right\<close> and \<open>center\<close>: a text at least as wide
  as the target is returned unchanged; a narrower one is padded with spaces (code point
  32), after the text for \<open>left\<close>, before it for \<open>right\<close>, and for \<open>center\<close> half the
  deficit rounded down before it and the rest after it. The result is never shorter
  than the text.
\<close>

theorem align_text_spec:
  assumes "align \<in> {ascii ''left'', ascii ''right'', ascii ''center''}"
  shows "(target_width \<le> int (get_display_width lib text)
            \<longrightarrow> align_text lib text target_width align = text)
       \<and> (int (get_display_width lib text) < target_width \<longrightarrow>
            (align = ascii ''left'' \<longrightarrow>
               align_text lib text target_width align
                 = text @ replicate (nat (target_width - int (get_display_width lib text))) 32)
          \<and> (align = ascii ''right'' \<longrightarrow>
               align_text lib text target_width align
                 = replicate (nat (target_width - int (get_display_width lib text))) 32 @ text)
          \<and> (align = ascii ''center'' \<longrightarrow>
               align_text lib text target_width align
                 = replicate (nat (target_width - int (get_display_width lib text)) div 2) 32
                   @ text
                   @ replicate (nat (target_width - int (get_display_width lib text))
                                - nat (target_width - int (get_display_width lib text)) div 2) 32))
       \<and> length text \<le> length (align_text lib text target_width align)"
proof -
  define p where "p = target_width - int (get_display_width lib text)"
  have half: "nat (p div 2) = nat p div 2" "nat (p - p div 2) = nat p - nat p div 2" if "0 < p"
    using that by (simp_all add: nat_div_distrib nat_diff_distrib)
  show ?thesis
    using assms half unfolding p_def
    by (auto simp add: align_text_def Let_def spaces_def ascii_left ascii_right ascii_center)
qed

text \<open>A text of width 4 aligned to the widths 3 and 9.\<close>

theorem align_text_spec_witness:
  "ascii ''center'' \<in> {ascii ''left'', ascii ''right'', ascii ''center''}
   \<and> (3::int) \<le> int (get_display_width sample_lib [20013, 22269])
   \<and> align_text sample_lib [20013, 22269] 3 (ascii ''center'') = [20013, 22269]
   \<and> int (get_display_width sample_lib [20013, 22269]) < 9
   \<and> align_text sample_lib [20013, 22269] 9 (ascii ''center'') = [32, 32, 20013, 22269, 32, 32, 32]
   \<and> align_text sample_lib [20013, 22269] 9 (ascii ''left'') = [20013, 22269, 32, 32, 32, 32, 32]
   \<and> align_text sample_lib [20013, 22269] 9 (ascii ''right'') = [32, 32, 32, 32, 32, 20013, 22269]"
proof -
  have w: "get_display_width sample_lib [20013, 22269] = 4"
    by (simp add: get_display_width_def sample_lib_def eaw_excerpt_def)
  have r5: "replicate 5 (32::nat) = [32, 32, 32, 32, 32]" "replicate 2 (32::nat) = [32, 32]"
    "replicate 3 (32::nat) = [32, 32, 32]"
    by (simp_all add: numeral_eq_Suc)
  show ?thesis
    using align_text_spec [of "ascii ''center''" 3 sample_lib "[20013, 22269]"]
      align_text_spec [of "ascii ''center''" 9 sample_lib "[20013, 22269]"]
      align_text_spec [of "ascii ''left''" 9 sample_lib "[20013, 22269]"]
      align_text_spec [of "ascii ''right''" 9 sample_lib "[20013, 22269]"]
    by (simp add: w r5 ascii_left ascii_right ascii_center)
qed

text \<open>
  Claim C10. For a target width that is a natural number and the alignments \<open>left\<close>,
  \<open>right\<close> and \<open>center\<close>, the display width of the result is the maximum of the target
  and the width of the text, and the result is the text between two runs of spaces.
  The space has to be a single-width character in the width table, as it is in
  Unicode.
\<close>

theorem align_text_width:
  assumes "east_asian_width lib 32 \<notin> {F, W}"
    and "align \<in> {ascii ''left'', ascii ''right'', ascii ''center''}"
  shows "get_display_width lib (align_text lib text (int target) align)
           = max target (get_display_width lib text)
       \<and> (\<exists>l r. align_text lib text (int target) align = replicate l 32 @ text @ replicate r 32)"
proof (cases "int target \<le> int (get_display_width lib text)")
  case True
  then have "align_text lib text (int target) align = text"
    by (simp add: align_text_def)
  moreover have "text = replicate 0 32 @ text @ replicate 0 32" by simp
  ultimately show ?thesis using True by (metis max.absorb2 of_nat_le_iff)
next
  case False
  define p where "p = target - get_display_width lib text"
  have p: "int target - int (get_display_width lib text) = int p" "0 < p"
    using False by (simp_all add: p_def)
  have half: "nat (int p div 2) = p div 2" "nat (int p - int p div 2) = p - p div 2"
    by (simp_all add: nat_div_distrib nat_diff_distrib)
  have form: "align_text lib text (int target) align =
      (if align = ascii ''left'' then replicate 0 32 @ text @ replicate p 32
       else if align = ascii ''right'' then replicate p 32 @ text @ replicate 0 32
       else replicate (p div 2) 32 @ text @ replicate (p - p div 2) 32)"
    using assms(2) p half
    by (auto simp add: align_text_def Let_def spaces_def ascii_left ascii_right ascii_center)
  have width: "get_display_width lib (align_text lib text (int target) align)
      = get_display_width lib text + p"
    unfolding form
    by (simp add: get_display_width_append get_display_width_spaces [OF assms(1)])
  have "get_display_width lib text + p = max target (get_display_width lib text)"
    using False by (simp add: p_def)
  with width form show ?thesis by metis
qed

text \<open>The same text centred to the widths 9 and 3.\<close>

theorem align_text_width_witness:
  "east_asian_width sample_lib 32 \<notin> {F, W}
   \<and> ascii ''center'' \<in> {ascii ''left'', ascii ''right'', ascii ''center''}
   \<and> get_display_width sample_lib (align_text sample_lib [20013, 22269] (int 9) (ascii ''center''))
       = max 9 (get_display_width sample_lib [20013, 22269])
   \<and> get_display_width sample_lib (align_text sample_lib [20013, 22269] (int 3) (ascii ''center''))
       = 4"
proof -
  have h1: "east_asian_width sample_lib 32 \<notin> {F, W}"
    by (simp add: sample_lib_def eaw_excerpt_def)
  have h2: "ascii ''center'' \<in> {ascii ''left'', ascii ''right'', ascii ''center''}"
    by simp
  have w: "get_display_width sample_lib [20013, 22269] = 4"
    by (simp add: get_display_width_def sample_lib_def eaw_excerpt_def)
  show ?thesis
    using h1 h2 align_text_width [OF h1 h2, of "[20013, 22269]" 9]
      align_text_width [OF h1 h2, of "[20013, 22269]" 3]
    by (simp add: w)
qed

section \<open>Rendering: properties\<close>

lemma then_do_Inr [simp]: "then_do (Inr x) f = f x"
  by (simp add: then_do_def)

lemma then_do_Inl [simp]: "then_do (Inl e) f = Inl e"
  by (simp add: then_do_def)

text \<open>
  Claim C9. For a quote whose close is not zero, the row that \<open>display_stock_info\<close>
  renders has in its change column: for a change of zero or more the escape sequence
  \<open>\033[31m\<close> (red) and the arrow U+2191 (up); for a negative change the escape sequence
  \<open>\033[32m\<close> (green) and the arrow U+2193 (down). Between them stand the signed change
  and the signed percentage, and the reset sequence ends the column.
\<close>

theorem change_direction:
  assumes "close si \<noteq> 0"
  shows "display_stock_info lib (Some si) stock_code =
     Inr (display_one_line lib
       \<lparr>code_col = stock_code,
        name_col = name si,
        current_col = format_f lib False 0 (current si),
        change_col =
          (if 0 \<le> current si - close si then [27, 91, 51, 49, 109] else [27, 91, 51, 50, 109])
          @ format_f lib True 7 (current si - close si) @ [32]
          @ [40] @ format_f lib True 6 ((current si - close si) / close si * 100) @ [37, 41]
          @ (if 0 \<le> current si - close si then [8593] else [8595])
          @ [27, 91, 48, 109],
        high_col = format_f lib False 7 (high si),
        low_col = format_f lib False 7 (low si)\<rparr>)"
  using assms
  by (simp add: display_stock_info_def truediv_def change_str_def color_code_def symbol_def
      red_code_def green_code_def reset_code_def up_arrow_def down_arrow_def ascii_def Let_def
      not_le)

text \<open>Evaluation of the sample formatter at the prices of the sample rows.\<close>

lemma replicate_numeral_unfold:
  "replicate (numeral k) x = x # replicate (pred_numeral k) x"
  by (simp only: numeral_eq_Suc replicate_Suc)

lemma fmt_2780: "format_2f False 0 (2780 / 100) = ascii ''27.80''"
  by (simp add: format_2f_def round_half_even_def; simp add: py_rjust_def;
      simp add: ascii_def; simp add: replicate_numeral_unfold)

lemma fmt_2779: "format_2f False 0 (2779 / 100) = ascii ''27.79''"
  by (simp add: format_2f_def round_half_even_def; simp add: py_rjust_def;
      simp add: ascii_def; simp add: replicate_numeral_unfold)

lemma fmt_2810: "format_2f False 7 (2810 / 100) = ascii ''  28.10''"
  by (simp add: format_2f_def round_half_even_def; simp add: py_rjust_def;
      simp add: ascii_def; simp add: replicate_numeral_unfold)

lemma fmt_2760: "format_2f False 7 (2760 / 100) = ascii ''  27.60''"
  by (simp add: format_2f_def round_half_even_def; simp add: py_rjust_def;
      simp add: ascii_def; simp add: replicate_numeral_unfold)

lemma fmt_flat_change: "format_2f True 7 (2780 / 100 - 2780 / 100) = ascii ''  +0.00''"
  by (simp add: format_2f_def round_half_even_def; simp add: py_rjust_def;
      simp add: ascii_def; simp add: replicate_numeral_unfold)

lemma fmt_flat_percent:
  "format_2f True 6 ((2780 / 100 - 2780 / 100) / (2780 / 100) * 100) = ascii '' +0.00''"
  by (simp add: format_2f_def round_half_even_def; simp add: py_rjust_def;
      simp add: ascii_def; simp add: replicate_numeral_unfold)

lemma fmt_down_change: "format_2f True 7 (2779 / 100 - 2780 / 100) = ascii ''  -0.01''"
  by (simp add: format_2f_def round_half_even_def; simp add: py_rjust_def;
      simp add: ascii_def; simp add: replicate_numeral_unfold)

lemma fmt_down_percent:
  "format_2f True 6 ((2779 / 100 - 2780 / 100) / (2780 / 100) * 100) = ascii '' -0.04''"
  by code_simp

text \<open>
  A change of exactly zero is rendered as up (red), a change of \<open>-0.01\<close> as down (green).
\<close>

theorem change_direction_witness:
  "display_stock_info sample_lib (Some (sample_quote\<lparr>current := 2780 / 100\<rparr>)) sh601318 =
     Inr (display_one_line sample_lib
       \<lparr>code_col = sh601318,
        name_col = ascii ''PINGAN'',
        current_col = ascii ''27.80'',
        change_col = [27, 91, 51, 49, 109] @ ascii ''  +0.00 ( +0.00%)'' @ [8593]
                     @ [27, 91, 48, 109],
        high_col = ascii ''  28.10'',
        low_col = ascii ''  27.60''\<rparr>)
   \<and> display_stock_info sample_lib (Some (sample_quote\<lparr>current := 2779 / 100\<rparr>)) sh601318 =
     Inr (display_one_line sample_lib
       \<lparr>code_col = sh601318,
        name_col = ascii ''PINGAN'',
        current_col = ascii ''27.79'',
        change_col = [27, 91, 51, 50, 109] @ ascii ''  -0.01 ( -0.04%)'' @ [8595]
                     @ [27, 91, 48, 109],
        high_col = ascii ''  28.10'',
        low_col = ascii ''  27.60''\<rparr>)"
proof -
  note f = fmt_2780 fmt_2779 fmt_2810 fmt_2760 fmt_flat_change fmt_flat_percent fmt_down_change
  note f' = fmt_down_percent
  have c: "close (sample_quote\<lparr>current := 2780 / 100\<rparr>) \<noteq> 0"
    "close (sample_quote\<lparr>current := 2779 / 100\<rparr>) \<noteq> 0"
    by (simp_all add: sample_quote_def)
  have s: "(0::rat) \<le> 2780 / 100 - 2780 / 100" "\<not> (0::rat) \<le> 2779 / 100 - 2780 / 100"
    by simp_all
  note r1 = change_direction [OF c(1), of sample_lib sh601318]
  note r2 = change_direction [OF c(2), of sample_lib sh601318]
  have sel: "name (sample_quote\<lparr>current := x\<rparr>) = ascii ''PINGAN''"
    "current (sample_quote\<lparr>current := x\<rparr>) = x"
    "close (sample_quote\<lparr>current := x\<rparr>) = 2780 / 100"
    "high (sample_quote\<lparr>current := x\<rparr>) = 2810 / 100"
    "low (sample_quote\<lparr>current := x\<rparr>) = 2760 / 100" for x
    by (simp_all add: sample_quote_def)
  have lib: "format_f sample_lib = format_2f"
    by (simp add: sample_lib_def)
  have a1: "[27, 91, 51, 49, 109] @ ascii ''  +0.00'' @ [32] @ [40] @ ascii '' +0.00'' @ [37, 41]
       @ [8593] @ [27, 91, 48, 109]
     = [27, 91, 51, 49, 109] @ ascii ''  +0.00 ( +0.00%)'' @ [8593] @ [27, 91, 48, 109]"
    by (simp add: ascii_def)
  have a2: "[27, 91, 51, 50, 109] @ ascii ''  -0.01'' @ [32] @ [40] @ ascii '' -0.04'' @ [37, 41]
       @ [8595] @ [27, 91, 48, 109]
     = [27, 91, 51, 50, 109] @ ascii ''  -0.01 ( -0.04%)'' @ [8595] @ [27, 91, 48, 109]"
    by (simp add: ascii_def)
  show ?thesis
    using r1 r2 unfolding sel lib f f' if_P [OF s(1)] if_not_P [OF s(2)] a1 a2
    by (rule conjI)
qed

section \<open>Sorting: properties\<close>


lemma keyed_some_Inl:
  "x \<in> set xs \<Longrightarrow> f x = Inl e \<Longrightarrow> \<exists>e'. keyed f xs = Inl e'"
proof (induction xs)
  case Nil
  then show ?case by simp
next
  case (Cons y ys)
  show ?case
  proof (cases "f y")
    case (Inl e1)
    then show ?thesis by simp
  next
    case (Inr k)
    with Cons obtain e' where "keyed f ys = Inl e'" by auto
    with Inr show ?thesis by simp
  qed
qed



lemma sort_lambda_None: "sort_lambda None = Inl TypeError"
  by (simp add: sort_lambda_def)

lemma sort_lambda_zero_close: "close si = 0 \<Longrightarrow> sort_lambda (Some si) = Inl ZeroDivisionError"
  by (simp add: sort_lambda_def float_truediv_def)

lemma sort_lambda_Some: "close si \<noteq> 0 \<Longrightarrow> sort_lambda (Some si) = Inr (sort_key_of si)"
  by (simp add: sort_lambda_def float_truediv_def sort_key_of_def)









lemma sort_zero_close:
  "sorted_reverse sort_lambda [Some (sample_quote\<lparr>close := 0\<rparr>)] = Inl ZeroDivisionError"
  by (simp add: sorted_reverse_def sort_lambda_zero_close)


section \<open>The refresh cycle: properties\<close>

lemma fetch_all_outcomes:
  "snd (fetch_all lib net codes) = map (\<lambda>c. snd (get_stock_price_optimized lib net c)) codes"
  by (induction codes) (simp_all add: split_beta)

lemma sort_lambda_errors:
  "sort_lambda x = Inl e \<Longrightarrow> e = TypeError \<or> e = ZeroDivisionError"
  by (auto simp add: sort_lambda_def float_truediv_def split: option.splits if_splits)

lemma keyed_errors:
  "keyed sort_lambda xs = Inl e \<Longrightarrow> e = TypeError \<or> e = ZeroDivisionError"
proof (induction xs)
  case Nil
  then show ?case by simp
next
  case (Cons x xs)
  show ?case
  proof (cases "sort_lambda x")
    case (Inl e1)
    with Cons.prems have "e1 = e" by simp
    with Inl show ?thesis by (auto dest: sort_lambda_errors)
  next
    case (Inr k)
    with Cons.prems have "keyed sort_lambda xs = Inl e"
      by (cases "keyed sort_lambda xs") simp_all
    then show ?thesis by (rule Cons.IH)
  qed
qed

lemma sorted_reverse_key_error:
  assumes "x \<in> set xs" and "sort_lambda x = Inl e"
  shows "\<exists>e'. sorted_reverse sort_lambda xs = Inl e' \<and> (e' = TypeError \<or> e' = ZeroDivisionError)"
proof -
  from keyed_some_Inl [of x xs sort_lambda e, OF assms] obtain e' where e': "keyed sort_lambda xs = Inl e'" ..
  then have "sorted_reverse sort_lambda xs = Inl e'"
    by (simp add: sorted_reverse_def)
  with keyed_errors [OF e'] show ?thesis by blast
qed

lemma run_cycle_sort_error:
  assumes "sorted_reverse sort_lambda (snd (fetch_all lib net stock_codes)) = Inl e"
  shows "run_cycle lib net stock_codes
    = ([CursorHome, Line (display_one_line lib header_dict)] @ fst (fetch_all lib net stock_codes),
       Some e)"
  using assms by (simp add: run_cycle_def split_beta)

lemma run_cycle_key_error:
  assumes "c \<in> set stock_codes"
    and "sort_lambda (snd (get_stock_price_optimized lib net c)) = Inl e"
  shows "\<exists>e'. run_cycle lib net stock_codes
    = ([CursorHome, Line (display_one_line lib header_dict)] @ fst (fetch_all lib net stock_codes),
       Some e') \<and> (e' = TypeError \<or> e' = ZeroDivisionError)"
proof -
  from assms(1) have "snd (get_stock_price_optimized lib net c) \<in> set (snd (fetch_all lib net stock_codes))"
    by (simp add: fetch_all_outcomes)
  from sorted_reverse_key_error [OF this assms(2)] obtain e' where
    "sorted_reverse sort_lambda (snd (fetch_all lib net stock_codes)) = Inl e'"
    "e' = TypeError \<or> e' = ZeroDivisionError" by blast
  with run_cycle_sort_error show ?thesis by blast
qed

text \<open>
  Claim C1 (a cycle in which the fetch of one code yields \<open>None\<close> still completes).
  What the code does: every configured code is still fetched, one outcome each; but
  the \<open>sorted\<close> call then raises while it computes the key of the first outcome it
  cannot subscript or divide, and nothing in \<open>run\<close> catches that exception. The cycle
  ends after the header and the diagnostics, with no row and no timestamp.
\<close>

theorem run_cycle_aborts_on_unavailable:
  assumes "c \<in> set stock_codes"
    and "snd (get_stock_price_optimized lib net c) = None"
  shows "length (snd (fetch_all lib net stock_codes)) = length stock_codes
    \<and> (\<exists>e. run_cycle lib net stock_codes
          = ([CursorHome, Line (display_one_line lib header_dict)]
               @ fst (fetch_all lib net stock_codes), Some e)
        \<and> (e = TypeError \<or> e = ZeroDivisionError))"
proof -
  have "sort_lambda (snd (get_stock_price_optimized lib net c)) = Inl TypeError"
    using assms(2) by (simp add: sort_lambda_None)
  from run_cycle_key_error [OF assms(1) this] show ?thesis
    by (simp add: fetch_all_outcomes)
qed

text \<open>Evaluation of the sample networks.\<close>

lemma parse_sample_payload: "parse_raw_data sample_lib sample_payload = Inr sample_quote"
  by code_simp

lemma parse_single_field:
  "parse_raw_data sample_lib (payload_of (ascii ''v_pv_none_match'') [ascii ''1''])
     = Inl IndexError"
  by code_simp

lemma parse_zero_close:
  "parse_raw_data sample_lib
       (payload_of (ascii ''v_sh601318'') (sample_fields[4 := ascii ''0.00'']))
     = Inr (sample_quote\<lparr>close := 0\<rparr>)"
  by code_simp

lemma codes_differ: "sz000001 \<noteq> sh601318"
  by (simp add: sz000001_def sh601318_def ascii_def)

lemma timeout_net_fetch:
  "fetch_all sample_lib timeout_net [sh601318, sz000001]
     = ([TimeoutDiag sz000001], [Some sample_quote, None])"
  by (simp add: get_stock_price_optimized_def timeout_net_def parse_sample_payload codes_differ)

lemma scenario_net_fetch:
  "fetch_all sample_lib scenario_net [sh601318, sz000001]
     = ([ParseDiag sz000001 IndexError (payload_of (ascii ''v_pv_none_match'') [ascii ''1''])],
        [Some sample_quote, None])"
  by (simp add: get_stock_price_optimized_def scenario_net_def parse_sample_payload
      parse_single_field codes_differ)

lemma zero_close_net_fetch:
  "fetch_all sample_lib zero_close_net [sh601318]
     = ([], [Some (sample_quote\<lparr>close := 0\<rparr>)])"
  by (simp add: get_stock_price_optimized_def zero_close_net_def parse_zero_close)

lemma sample_quote_close: "close sample_quote \<noteq> 0"
  by (simp add: sample_quote_def)

lemma sort_quote_then_None:
  "sorted_reverse sort_lambda [Some sample_quote, None] = Inl TypeError"
  by (simp add: sorted_reverse_def sort_lambda_Some [OF sample_quote_close] sort_lambda_None)

lemma timeout_net_outcome:
  "snd (get_stock_price_optimized sample_lib timeout_net sz000001) = None"
  by (simp add: get_stock_price_optimized_def timeout_net_def codes_differ)

lemma timeout_net_cycle:
  "run_cycle sample_lib timeout_net [sh601318, sz000001]
     = ([CursorHome, Line (display_one_line sample_lib header_dict), TimeoutDiag sz000001],
        Some TypeError)"
proof -
  have "sorted_reverse sort_lambda (snd (fetch_all sample_lib timeout_net [sh601318, sz000001]))
      = Inl TypeError"
    by (simp only: timeout_net_fetch snd_conv sort_quote_then_None)
  from run_cycle_sort_error [OF this] show ?thesis
    by (simp only: timeout_net_fetch fst_conv append.simps)
qed

text \<open>
  Two codes, the request for the second times out: the cycle ends with \<open>TypeError\<close>.
\<close>

theorem run_cycle_aborts_on_unavailable_witness:
  "snd (get_stock_price_optimized sample_lib timeout_net sz000001) = None
   \<and> length (snd (fetch_all sample_lib timeout_net [sh601318, sz000001])) = 2
   \<and> run_cycle sample_lib timeout_net [sh601318, sz000001]
       = ([CursorHome, Line (display_one_line sample_lib header_dict), TimeoutDiag sz000001],
          Some TypeError)"
proof -
  have h: "sz000001 \<in> set [sh601318, sz000001]" by simp
  from run_cycle_aborts_on_unavailable [OF h timeout_net_outcome]
  have "length (snd (fetch_all sample_lib timeout_net [sh601318, sz000001])) = 2"
    by simp
  with timeout_net_outcome timeout_net_cycle show ?thesis by simp
qed

text \<open>
  Claim C3 (the end-to-end scenario: a quote of 27.85 with close 27.80 for \<open>sh601318\<close>,
  nothing for \<open>sz000001\<close>). The code fetches both outcomes and prints the header and the
  diagnostic of the second code; then \<open>sorted\<close> raises \<open>TypeError\<close> on the key of
  \<open>None\<close>, and no data row is rendered.
\<close>

theorem scenario_cycle_aborts:
  "snd (fetch_all sample_lib scenario_net [sh601318, sz000001]) = [Some sample_quote, None]
   \<and> run_cycle sample_lib scenario_net [sh601318, sz000001]
       = ([CursorHome, Line (display_one_line sample_lib header_dict),
           ParseDiag sz000001 IndexError (payload_of (ascii ''v_pv_none_match'') [ascii ''1''])],
          Some TypeError)"
proof -
  have "sorted_reverse sort_lambda (snd (fetch_all sample_lib scenario_net [sh601318, sz000001]))
      = Inl TypeError"
    by (simp only: scenario_net_fetch snd_conv sort_quote_then_None)
  from run_cycle_sort_error [OF this] show ?thesis
    by (simp only: scenario_net_fetch fst_conv snd_conv append.simps simp_thms)
qed

text \<open>
  Claim C2, amended. The code has no guard on the close: for a quote whose close is
  zero the key function of \<open>sorted\<close> and the percentage of \<open>display_stock_info\<close> divide,
  and the division raises \<open>ZeroDivisionError\<close>. The quote is not turned into \<open>None\<close>,
  and \<open>sorted\<close> on any list of outcomes that holds it raises instead of returning.
\<close>

theorem zero_close_raises:
  assumes "close si = 0"
  shows "sort_lambda (Some si) = Inl ZeroDivisionError
    \<and> display_stock_info lib (Some si) stock_code = Inl ZeroDivisionError
    \<and> (\<forall>xs. Some si \<in> set xs \<longrightarrow> (\<exists>e. sorted_reverse sort_lambda xs = Inl e))"
proof -
  have key: "sort_lambda (Some si) = Inl ZeroDivisionError"
    using assms by (rule sort_lambda_zero_close)
  have row: "display_stock_info lib (Some si) stock_code = Inl ZeroDivisionError"
    using assms by (simp add: display_stock_info_def truediv_def)
  have "\<exists>e. sorted_reverse sort_lambda xs = Inl e" if "Some si \<in> set xs" for xs
    using sorted_reverse_key_error [OF that key] by blast
  with key row show ?thesis by blast
qed

text \<open>
  Claim C2 as stated fails: a payload whose close is \<open>0.00\<close> is parsed into a quote (not
  into \<open>None\<close>), and the cycle ends with \<open>ZeroDivisionError\<close> after the header.
\<close>

theorem zero_close_counterexample:
  "snd (get_stock_price_optimized sample_lib zero_close_net sh601318)
     = Some (sample_quote\<lparr>close := 0\<rparr>)
   \<and> run_cycle sample_lib zero_close_net [sh601318]
       = ([CursorHome, Line (display_one_line sample_lib header_dict)], Some ZeroDivisionError)"
proof -
  have "sorted_reverse sort_lambda (snd (fetch_all sample_lib zero_close_net [sh601318]))
      = Inl ZeroDivisionError"
    by (simp only: zero_close_net_fetch snd_conv sort_zero_close)
  from run_cycle_sort_error [OF this]
  have "run_cycle sample_lib zero_close_net [sh601318]
       = ([CursorHome, Line (display_one_line sample_lib header_dict)], Some ZeroDivisionError)"
    by (simp only: zero_close_net_fetch fst_conv append.simps append_Nil2)
  moreover have "snd (get_stock_price_optimized sample_lib zero_close_net sh601318)
     = Some (sample_quote\<lparr>close := 0\<rparr>)"
    by (simp add: get_stock_price_optimized_def zero_close_net_def parse_zero_close)
  ultimately show ?thesis by (rule conjI [rotated])
qed

text \<open>The sample quote with its close set to zero.\<close>

theorem zero_close_raises_witness:
  "close (sample_quote\<lparr>close := 0\<rparr>) = 0
   \<and> sort_lambda (Some (sample_quote\<lparr>close := 0\<rparr>)) = Inl ZeroDivisionError
   \<and> display_stock_info sample_lib (Some (sample_quote\<lparr>close := 0\<rparr>)) sh601318
       = Inl ZeroDivisionError
   \<and> (\<exists>e. sorted_reverse sort_lambda [Some sample_quote, Some (sample_quote\<lparr>close := 0\<rparr>)]
            = Inl e)"
proof -
  have h: "close (sample_quote\<lparr>close := 0\<rparr>) = 0" by simp
  from zero_close_raises [OF h, of sample_lib sh601318] h show ?thesis
    by auto
qed

section \<open>Parsing: properties\<close>

lemma then_do_eq_Inr: "then_do m f = Inr y \<longleftrightarrow> (\<exists>x. m = Inr x \<and> f x = Inr y)"
  by (cases m) simp_all

lemma py_index_eq_Inr: "py_index xs i = Inr x \<longleftrightarrow> i < length xs \<and> xs ! i = x"
  by (simp add: py_index_def)

lemma float_field_eq_Inr:
  "float_field lib flds i = Inr v \<longleftrightarrow> i < length flds \<and> float_of lib (flds ! i) = Some v"
  by (auto simp add: float_field_def py_index_def split: option.splits)

lemma float_field_errors:
  "float_field lib flds i = Inl e \<Longrightarrow> e = IndexError \<or> e = ValueError"
  by (auto simp add: float_field_def py_index_def split: option.splits if_splits)

lemma data_fields_errors: "data_fields raw_data = Inl e \<Longrightarrow> e = IndexError"
  by (auto simp add: data_fields_def py_index_def Let_def split: if_splits)

lemma parse_raw_data_eq_Inr:
  "parse_raw_data lib raw_data = Inr si \<longleftrightarrow>
     (\<exists>flds. data_fields raw_data = Inr flds \<and> 34 < length flds
        \<and> name si = flds ! 1
        \<and> float_of lib (flds ! 3) = Some (current si)
        \<and> float_of lib (flds ! 4) = Some (close si)
        \<and> float_of lib (flds ! 5) = Some (open_p si)
        \<and> float_of lib (flds ! 33) = Some (high si)
        \<and> float_of lib (flds ! 34) = Some (low si))"
  unfolding parse_raw_data_def then_do_eq_Inr float_field_eq_Inr py_index_eq_Inr
  by (cases si) auto

lemma then_do_errors:
  assumes "then_do m f = Inl e"
    and "\<And>e. m = Inl e \<Longrightarrow> P e"
    and "\<And>x e. f x = Inl e \<Longrightarrow> P e"
  shows "P e"
  using assms by (cases m) simp_all

lemma parse_raw_data_errors:
  assumes "parse_raw_data lib raw_data = Inl e"
  shows "e = IndexError \<or> e = ValueError"
  using assms unfolding parse_raw_data_def
  apply (elim then_do_errors)
        apply (auto dest: data_fields_errors float_field_errors simp add: py_index_def
      split: if_splits)
  done

lemma split_loop_no_sep:
  "\<not> sublist sep s \<Longrightarrow> split_loop sep cur s = [cur @ s]"
proof (induction s arbitrary: cur)
  case Nil
  then show ?case by simp
next
  case (Cons c s)
  from Cons.prems have "\<not> prefix sep (c # s)" "\<not> sublist sep s"
    by (simp_all add: sublist_Cons_right)
  with Cons.IH [of "cur @ [c]"] show ?case by simp
qed

lemma data_fields_no_marker:
  "\<not> sublist open_marker raw_data \<Longrightarrow> data_fields raw_data = Inl IndexError"
  by (simp add: data_fields_def py_split_def split_loop_no_sep py_index_def)

text \<open>
  Claim C5, amended. For a response of status 200 whose body has no opening marker
  \<open>="\<close>, or whose fields (the list \<open>fields\<close> the code computes) are fewer than 35, or
  have at one of the positions 3, 4, 5, 33, 34 a text that \<open>float\<close> rejects,
  \<open>get_stock_price_optimized\<close> returns \<open>None\<close> with the parse diagnostic; the exception
  caught is \<open>IndexError\<close> or \<open>ValueError\<close>, and none leaves the function. (The claim
  as stated also lists a missing closing \<open>";\<close>; that case is left out.)
\<close>

theorem parse_failure_unavailable:
  assumes "net stock_code = Response 200 raw_data"
    and "\<not> sublist open_marker raw_data
       \<or> (\<exists>flds. data_fields raw_data = Inr flds
             \<and> (length flds < 35
                \<or> (\<exists>i\<in>{3, 4, 5, 33, 34}. i < length flds \<and> float_of lib (flds ! i) = None)))"
  shows "\<exists>e. get_stock_price_optimized lib net stock_code
              = ([ParseDiag stock_code e raw_data], None)
           \<and> (e = IndexError \<or> e = ValueError)"
proof -
  have "parse_raw_data lib raw_data \<noteq> Inr si" for si
    using assms(2) by (auto simp add: parse_raw_data_eq_Inr data_fields_no_marker)
  then obtain e where e: "parse_raw_data lib raw_data = Inl e"
    by (cases "parse_raw_data lib raw_data") auto
  with parse_raw_data_errors [OF e] assms(1) show ?thesis
    by (simp add: get_stock_price_optimized_def)
qed

text \<open>
  Claim C5 as stated fails for a body that lacks the closing \<open>";\<close>: \<open>rstrip\<close> removes
  nothing, and the body is parsed into the same quote as the closed payload.
\<close>

lemma unclosed_payload_no_close: "\<not> sublist [34, 59] unclosed_payload"
  by code_simp

lemma unclosed_payload_parse: "parse_raw_data sample_lib unclosed_payload = Inr sample_quote"
  by code_simp

theorem unclosed_payload_counterexample:
  "\<not> sublist [34, 59] unclosed_payload
   \<and> get_stock_price_optimized sample_lib (\<lambda>c. Response 200 unclosed_payload) sh601318
       = ([], Some sample_quote)"
  by (simp add: get_stock_price_optimized_def unclosed_payload_parse unclosed_payload_no_close)

text \<open>
  A body without marker, a payload of one field, and a payload with \<open>abc\<close> at
  position 3.
\<close>

lemma unmarked_body_no_marker: "\<not> sublist open_marker unmarked_body"
  by code_simp

lemma single_field_fields:
  "data_fields (payload_of (ascii ''v_pv_none_match'') [ascii ''1'']) = Inr [ascii ''1'']"
  by code_simp

lemma non_numeric_fields:
  "data_fields non_numeric_payload = Inr (sample_fields[3 := ascii ''abc''])"
  by code_simp

lemma non_numeric_field_3:
  "3 < length (sample_fields[3 := ascii ''abc''])
   \<and> float_of sample_lib (sample_fields[3 := ascii ''abc''] ! 3) = None"
  by code_simp

lemma unmarked_body_parse: "parse_raw_data sample_lib unmarked_body = Inl IndexError"
  by code_simp

lemma non_numeric_parse: "parse_raw_data sample_lib non_numeric_payload = Inl ValueError"
  by code_simp

theorem parse_failure_unavailable_witness:
  "get_stock_price_optimized sample_lib (\<lambda>c. Response 200 unmarked_body) sh601318
     = ([ParseDiag sh601318 IndexError unmarked_body], None)
   \<and> get_stock_price_optimized sample_lib
         (\<lambda>c. Response 200 (payload_of (ascii ''v_pv_none_match'') [ascii ''1''])) sh601318
     = ([ParseDiag sh601318 IndexError (payload_of (ascii ''v_pv_none_match'') [ascii ''1''])],
        None)
   \<and> get_stock_price_optimized sample_lib (\<lambda>c. Response 200 non_numeric_payload) sh601318
     = ([ParseDiag sh601318 ValueError non_numeric_payload], None)"
proof -
  have a: "\<exists>e. get_stock_price_optimized sample_lib (\<lambda>c. Response 200 unmarked_body) sh601318
              = ([ParseDiag sh601318 e unmarked_body], None)
           \<and> (e = IndexError \<or> e = ValueError)"
    by (rule parse_failure_unavailable) (simp_all add: unmarked_body_no_marker)
  have b: "\<exists>e. get_stock_price_optimized sample_lib
            (\<lambda>c. Response 200 (payload_of (ascii ''v_pv_none_match'') [ascii ''1''])) sh601318
              = ([ParseDiag sh601318 e (payload_of (ascii ''v_pv_none_match'') [ascii ''1''])],
                 None)
           \<and> (e = IndexError \<or> e = ValueError)"
    by (rule parse_failure_unavailable) (simp_all add: single_field_fields)
  have c: "\<exists>e. get_stock_price_optimized sample_lib (\<lambda>c. Response 200 non_numeric_payload)
              sh601318
              = ([ParseDiag sh601318 e non_numeric_payload], None)
           \<and> (e = IndexError \<or> e = ValueError)"
  proof (rule parse_failure_unavailable)
    from non_numeric_field_3
    have "\<exists>i\<in>{3, 4, 5, 33, 34}. i < length (sample_fields[3 := ascii ''abc''])
        \<and> float_of sample_lib (sample_fields[3 := ascii ''abc''] ! i) = None"
      by blast
    with non_numeric_fields
    show "\<not> sublist open_marker non_numeric_payload
       \<or> (\<exists>flds. data_fields non_numeric_payload = Inr flds
             \<and> (length flds < 35
                \<or> (\<exists>i\<in>{3, 4, 5, 33, 34}. i < length flds
                      \<and> float_of sample_lib (flds ! i) = None)))"
      by blast
  qed (rule refl)
  from a have a': "get_stock_price_optimized sample_lib (\<lambda>c. Response 200 unmarked_body) sh601318
     = ([ParseDiag sh601318 IndexError unmarked_body], None)"
    by (simp add: get_stock_price_optimized_def unmarked_body_parse)
  from b have b': "get_stock_price_optimized sample_lib
         (\<lambda>c. Response 200 (payload_of (ascii ''v_pv_none_match'') [ascii ''1''])) sh601318
     = ([ParseDiag sh601318 IndexError (payload_of (ascii ''v_pv_none_match'') [ascii ''1''])],
        None)"
    by (simp add: get_stock_price_optimized_def parse_single_field)
  from c have c': "get_stock_price_optimized sample_lib (\<lambda>c. Response 200 non_numeric_payload)
       sh601318
     = ([ParseDiag sh601318 ValueError non_numeric_payload], None)"
    by (simp add: get_stock_price_optimized_def non_numeric_parse)
  from a' b' c' show ?thesis by simp
qed

section \<open>Parsing a payload of the feed's form\<close>

lemma prefix_marker_Cons:
  "prefix open_marker (x # s) \<longleftrightarrow> x = 61 \<and> (\<exists>t. s = 34 # t)"
  by (cases s) (auto simp add: open_marker_def)

lemma split_loop_marker:
  assumes "\<not> sublist open_marker a"
  shows "split_loop open_marker cur (a @ open_marker @ b)
           = (cur @ a) # split_loop open_marker [] b"
  using assms
proof (induction a arbitrary: cur)
  case Nil
  then show ?case by (simp add: open_marker_def)
next
  case (Cons x a)
  from Cons.prems have no: "\<not> prefix open_marker (x # a)" "\<not> sublist open_marker a"
    by (simp_all add: sublist_Cons_right)
  have "\<not> prefix open_marker (x # a @ open_marker @ b)"
  proof (cases a)
    case Nil
    then show ?thesis by (simp add: open_marker_def)
  next
    case (Cons y a')
    with no(1) show ?thesis by (simp add: prefix_marker_Cons)
  qed
  with Cons.IH [OF no(2), of "cur @ [x]"] show ?case
    by (simp add: open_marker_def)
qed

lemma py_split_marker:
  assumes "\<not> sublist open_marker a" and "\<not> sublist open_marker b"
  shows "py_split open_marker (a @ open_marker @ b) = [a, b]"
  using split_loop_marker [OF assms(1), of "[]" b] split_loop_no_sep [OF assms(2), of "[]"]
  by (simp add: py_split_def)

lemma rstrip_append_stop:
  assumes "c \<notin> set chars"
  shows "rstrip chars (a @ c # b) = a @ c # rstrip chars b"
proof (cases "\<forall>x\<in>set b. x \<in> set chars")
  case True
  then have "dropWhile (\<lambda>c. c \<in> set chars) (rev b) = []"
    by simp
  moreover from True have "dropWhile (\<lambda>c. c \<in> set chars) (rev b @ c # rev a) = c # rev a"
    using assms by (simp add: dropWhile_append)
  ultimately show ?thesis by (simp add: rstrip_def)
next
  case False
  then have "dropWhile (\<lambda>c. c \<in> set chars) (rev b @ c # rev a)
      = dropWhile (\<lambda>c. c \<in> set chars) (rev b) @ c # rev a"
    by (auto simp add: dropWhile_append)
  then show ?thesis by (simp add: rstrip_def)
qed

lemma rstrip_close_marker:
  "rstrip close_chars (s @ [34, 59]) = rstrip close_chars s"
  by (simp add: rstrip_def close_chars_def)

lemma set_rstrip: "set (rstrip chars s) \<subseteq> set s"
  by (auto simp add: rstrip_def dest: set_dropWhileD)

lemma split_loop_tilde_field:
  "126 \<notin> set f \<Longrightarrow>
     split_loop tilde cur (f @ tilde @ rest) = (cur @ f) # split_loop tilde [] rest"
  by (induction f arbitrary: cur) (simp_all add: tilde_def)

lemma split_loop_tilde_last: "126 \<notin> set f \<Longrightarrow> split_loop tilde cur f = [cur @ f]"
  by (induction f arbitrary: cur) (simp_all add: tilde_def)

lemma tilde_join_Cons: "fs \<noteq> [] \<Longrightarrow> tilde_join (f # fs) = f @ tilde @ tilde_join fs"
  by (cases fs) simp_all

lemma split_loop_tilde_join:
  "fs \<noteq> [] \<Longrightarrow> \<forall>f\<in>set fs. 126 \<notin> set f \<Longrightarrow>
     split_loop tilde cur (tilde_join fs) = (cur @ hd fs) # tl fs"
proof (induction fs arbitrary: cur)
  case Nil
  then show ?case by simp
next
  case (Cons f fs)
  show ?case
  proof (cases "fs = []")
    case True
    with Cons.prems show ?thesis by (simp add: split_loop_tilde_last)
  next
    case False
    with Cons.prems Cons.IH [of "[]"] show ?thesis
      by (cases fs) (simp_all add: tilde_join_Cons split_loop_tilde_field)
  qed
qed

lemma py_split_tilde_join:
  "fs \<noteq> [] \<Longrightarrow> \<forall>f\<in>set fs. 126 \<notin> set f \<Longrightarrow> py_split tilde (tilde_join fs) = fs"
  by (simp add: py_split_def split_loop_tilde_join)

lemma rstrip_tilde_join:
  "fs \<noteq> [] \<Longrightarrow>
     rstrip close_chars (tilde_join fs)
       = tilde_join (butlast fs @ [rstrip close_chars (last fs)])"
proof (induction fs)
  case Nil
  then show ?case by simp
next
  case (Cons f fs)
  show ?case
  proof (cases "fs = []")
    case True
    then show ?thesis by simp
  next
    case False
    have stop: "(126::nat) \<notin> set close_chars"
      by (simp add: close_chars_def)
    from False have "rstrip close_chars (tilde_join (f # fs))
        = f @ tilde @ rstrip close_chars (tilde_join fs)"
      by (simp add: tilde_join_Cons tilde_def rstrip_append_stop [OF stop])
    also from False Cons.IH
    have "\<dots> = f @ tilde @ tilde_join (butlast fs @ [rstrip close_chars (last fs)])"
      by simp
    also from False
    have "\<dots> = tilde_join (butlast (f # fs) @ [rstrip close_chars (last (f # fs))])"
      by (simp add: tilde_join_Cons)
    finally show ?thesis .
  qed
qed

lemma data_fields_payload:
  assumes "\<not> sublist open_marker ident"
    and "\<not> sublist open_marker (tilde_join fs @ [34, 59])"
    and "\<forall>f\<in>set fs. 126 \<notin> set f"
    and "fs \<noteq> []"
  shows "data_fields (payload_of ident fs)
           = Inr (butlast fs @ [rstrip close_chars (last fs)])"
proof -
  let ?fs = "butlast fs @ [rstrip close_chars (last fs)]"
  have split: "py_split open_marker (payload_of ident fs) = [ident, tilde_join fs @ [34, 59]]"
    unfolding payload_of_def by (rule py_split_marker [OF assms(1) assms(2)])
  have strip: "rstrip close_chars (tilde_join fs @ [34, 59]) = tilde_join ?fs"
    by (simp only: rstrip_close_marker rstrip_tilde_join [OF assms(4)])
  have "\<forall>f\<in>set ?fs. 126 \<notin> set f"
    using assms(3) assms(4) set_rstrip [of close_chars "last fs"]
    by (auto dest: in_set_butlastD)
  then have "py_split tilde (tilde_join ?fs) = ?fs"
    by (intro py_split_tilde_join) simp_all
  with split strip show ?thesis
    by (simp add: data_fields_def py_index_def)
qed

lemma nth_stripped_last:
  assumes "i < length fs"
    and "i < length fs - 1 \<or> rstrip close_chars (fs ! i) = fs ! i"
  shows "(butlast fs @ [rstrip close_chars (last fs)]) ! i = fs ! i"
proof (cases "i < length fs - 1")
  case True
  then show ?thesis by (simp add: nth_append nth_butlast)
next
  case False
  with assms have i: "i = length fs - 1" "rstrip close_chars (fs ! i) = fs ! i"
    by auto
  moreover from assms(1) have "fs \<noteq> []" by auto
  ultimately have "last fs = fs ! i"
    by (simp add: last_conv_nth)
  with i show ?thesis by (simp add: nth_append)
qed

text \<open>
  Claim C4, amended. Take a payload \<open>ident="f0~f1~...~fN";\<close> in which the marker \<open>="\<close>
  occurs neither in the identifier nor in \<open>f0~f1~...~fN";\<close>, with at least 35 fields,
  none containing a tilde, and a field 34 that does not end in \<open>"\<close> or \<open>;\<close> (no text
  that \<open>float\<close> accepts does). If field 1 is the name of a quote and \<open>float\<close> maps the
  fields 3, 4, 5, 33, 34 to its current price, close, open, high and low, then parsing
  the payload returns that quote. So the parser reads the positions the claim lists,
  and a quote written into a payload of this form is read back unchanged.
\<close>

theorem parse_payload:
  assumes "\<not> sublist open_marker ident"
    and "\<not> sublist open_marker (tilde_join fs @ [34, 59])"
    and "\<forall>f\<in>set fs. 126 \<notin> set f"
    and "35 \<le> length fs"
    and "rstrip close_chars (fs ! 34) = fs ! 34"
    and "fs ! 1 = name q"
    and "float_of lib (fs ! 3) = Some (current q)"
    and "float_of lib (fs ! 4) = Some (close q)"
    and "float_of lib (fs ! 5) = Some (open_p q)"
    and "float_of lib (fs ! 33) = Some (high q)"
    and "float_of lib (fs ! 34) = Some (low q)"
  shows "parse_raw_data lib (payload_of ident fs) = Inr q"
proof -
  let ?fs = "butlast fs @ [rstrip close_chars (last fs)]"
  from assms(4) have ne: "fs \<noteq> []" by auto
  have fields: "data_fields (payload_of ident fs) = Inr ?fs"
    by (rule data_fields_payload [OF assms(1) assms(2) assms(3) ne])
  have len: "34 < length ?fs"
    using assms(4) by simp
  have nth: "?fs ! i = fs ! i" if "i < 34" for i
    using that assms(4) by (intro nth_stripped_last disjI1) simp_all
  have nth34: "?fs ! 34 = fs ! 34"
    using assms(4) assms(5) by (intro nth_stripped_last disjI2) simp_all
  show ?thesis
    unfolding parse_raw_data_eq_Inr
    using fields len assms(6-11) nth [of 1] nth [of 3] nth [of 4] nth [of 5] nth [of 33] nth34
    by simp
qed

text \<open>The sample payload is of that form and parses to the sample quote.\<close>

lemma sample_ident_no_marker: "\<not> sublist open_marker (ascii ''v_sh601318'')"
  by code_simp

lemma sample_fields_no_marker: "\<not> sublist open_marker (tilde_join sample_fields @ [34, 59])"
  by code_simp

lemma sample_fields_no_tilde: "\<forall>f\<in>set sample_fields. 126 \<notin> set f"
  by code_simp

lemma sample_fields_length: "35 \<le> length sample_fields"
  by code_simp

lemma sample_fields_last: "rstrip close_chars (sample_fields ! 34) = sample_fields ! 34"
  by code_simp

lemma sample_fields_values:
  "sample_fields ! 1 = name sample_quote"
  "float_of sample_lib (sample_fields ! 3) = Some (current sample_quote)"
  "float_of sample_lib (sample_fields ! 4) = Some (close sample_quote)"
  "float_of sample_lib (sample_fields ! 5) = Some (open_p sample_quote)"
  "float_of sample_lib (sample_fields ! 33) = Some (high sample_quote)"
  "float_of sample_lib (sample_fields ! 34) = Some (low sample_quote)"
  by code_simp+

theorem parse_payload_witness:
  "parse_raw_data sample_lib (payload_of (ascii ''v_sh601318'') sample_fields)
     = Inr sample_quote"
  by (rule parse_payload [OF sample_ident_no_marker sample_fields_no_marker
        sample_fields_no_tilde sample_fields_length sample_fields_last sample_fields_values])

text \<open>
  Claim C4 as stated fails when a field contains the marker: with the name \<open>A="B\<close> the
  payload still has 35 tilde-free fields and numbers at the five positions, but
  \<open>split('="')[1]\<close> is \<open>1~A\<close>, and \<open>fields[3]\<close> raises \<open>IndexError\<close>.
\<close>

lemma marker_name_form:
  "length marker_name_fields = 35
   \<and> list_all (\<lambda>f. 126 \<notin> set f) marker_name_fields
   \<and> marker_name_fields ! 1 = [65, 61, 34, 66]"
  by code_simp

lemma marker_name_numbers:
  "map (\<lambda>i. float_of sample_lib (marker_name_fields ! i)) [3, 4, 5, 33, 34]
     = [Some (2785 / 100), Some (2780 / 100), Some (2782 / 100), Some (2810 / 100),
        Some (2760 / 100)]"
  by code_simp

lemma marker_name_parse:
  "parse_raw_data sample_lib (payload_of (ascii ''v_sh601318'') marker_name_fields)
     = Inl IndexError"
  by code_simp

theorem marker_name_counterexample:
  "length marker_name_fields = 35
   \<and> list_all (\<lambda>f. 126 \<notin> set f) marker_name_fields
   \<and> marker_name_fields ! 1 = [65, 61, 34, 66]
   \<and> map (\<lambda>i. float_of sample_lib (marker_name_fields ! i)) [3, 4, 5, 33, 34]
       = [Some (2785 / 100), Some (2780 / 100), Some (2782 / 100), Some (2810 / 100),
          Some (2760 / 100)]
   \<and> parse_raw_data sample_lib (payload_of (ascii ''v_sh601318'') marker_name_fields)
       = Inl IndexError"
  using marker_name_form marker_name_numbers marker_name_parse by simp

end
